theory Spec2Isabelle
  imports Main
begin

section \<open>Textify backend: OTP and profile handlers of backend/server.js\<close>

text \<open>
  The development follows \<^verbatim>\<open>src/backend/server.js\<close>. The five route handlers and the
  error-handling middleware of \<^verbatim>\<open>src/server.js\<close> are the same text line for line (the
  two files differ in the port, the CORS set-up, the health-check path and static file
  serving only), so every definition below embeds both.

  Each handler is a function from the process state and the request to the new state and
  the response it hands to Express (\<open>deliver\<close> says what the caller receives from
  it). The clock (\<^verbatim>\<open>Date.now()\<close>), the entropy behind
  \<^verbatim>\<open>crypto.randomInt\<close> and the outcome of the awaited Twilio call are parameters.
  A handler reads its request by destructuring \<^verbatim>\<open>req.body\<close>
  (\<^verbatim>\<open>const { phoneNumber, otp } = req.body\<close>), and such a read goes through the
  prototype chain of the body. The only properties that the program ever adds to
  \<^verbatim>\<open>Object.prototype\<close> are \<^verbatim>\<open>name\<close>, \<^verbatim>\<open>about\<close> and
  \<^verbatim>\<open>profilePicture\<close> (see \<open>assignFields\<close>), so \<^verbatim>\<open>phoneNumber\<close> and \<^verbatim>\<open>otp\<close>
  are bound to the request's own fields and are given as such. The \<^verbatim>\<open>name\<close> and
  \<^verbatim>\<open>about\<close> of a profile request can be inherited: \<open>post_profile\<close> and
  \<open>put_profile\<close> are the handlers from the bound values on, and
  \<open>post_profile_req\<close> and \<open>put_profile_req\<close> are the handlers on the request body,
  binding included.

  A phone number is a string, as in the specification: the \<^verbatim>\<open>phoneNumber\<close> of a body
  is \<open>Some\<close> string, or \<open>None\<close> when it is bound to \<^verbatim>\<open>undefined\<close>, and the
  \<^verbatim>\<open>:phoneNumber\<close> of a route is a string.
\<close>

subsection \<open>JavaScript values\<close>

text \<open>
  The primitive values a JSON body or a multipart field can bind: \<^verbatim>\<open>undefined\<close> (absent),
  \<^verbatim>\<open>null\<close>, booleans, numbers (integral ones: no branch of the handlers tells a
  fractional number from any other non-zero number) and strings.
\<close>

datatype jsval = JUndefined | JNull | JBool bool | JNum int | JStr string

text \<open>\<^verbatim>\<open>ToBoolean\<close>, as used by \<^verbatim>\<open>!x\<close>, \<^verbatim>\<open>if (x)\<close>, \<^verbatim>\<open>x || y\<close> and \<^verbatim>\<open>x ? y : z\<close>.\<close>

fun truthy :: "jsval \<Rightarrow> bool" where
  "truthy JUndefined = False"
| "truthy JNull = False"
| "truthy (JBool b) = b"
| "truthy (JNum n) = (n \<noteq> 0)"
| "truthy (JStr s) = (s \<noteq> [])"

subsection \<open>Numbers to strings\<close>

definition digit :: "nat \<Rightarrow> char" where
  "digit d = ''0123456789'' ! d"

text \<open>\<^verbatim>\<open>Number.prototype.toString()\<close> on a non-negative integer: its decimal digits.\<close>

fun toString :: "nat \<Rightarrow> string" where
  "toString n = (if n < 10 then [digit n] else toString (n div 10) @ [digit (n mod 10)])"

declare toString.simps [simp del]

definition digit_val :: "char \<Rightarrow> nat" where
  "digit_val c = of_char c - 48"

text \<open>The number a digit string denotes; used to read a generated code back.\<close>

definition parseDigits :: "string \<Rightarrow> nat" where
  "parseDigits s = foldl (\<lambda>a c. 10 * a + digit_val c) 0 s"

subsection \<open>Random codes\<close>

text \<open>
  \<^verbatim>\<open>crypto.randomInt(min, max)\<close> of Node.js returns an integer \<open>n\<close> with
  \<open>min \<le> n < max\<close>: the upper bound is exclusive. Node computes it as
  \<^verbatim>\<open>(x % range) + min\<close> with \<^verbatim>\<open>range = max - min\<close> from random bytes \<open>x\<close>; the
  bytes are the parameter \<open>x\<close> here.
\<close>

definition randomInt :: "nat \<Rightarrow> nat \<Rightarrow> nat \<Rightarrow> nat" where
  "randomInt lo hi x = x mod (hi - lo) + lo"

text \<open>Line 66: \<^verbatim>\<open>const otp = crypto.randomInt(100000, 999999).toString()\<close>.\<close>

definition generateOtp :: "nat \<Rightarrow> string" where
  "generateOtp x = toString (randomInt 100000 999999 x)"

subsection \<open>The two stores as JavaScript objects\<close>

text \<open>
  \<^verbatim>\<open>const otpStore = {}\<close> and \<^verbatim>\<open>const userStore = {}\<close> are ordinary objects, not
  \<^verbatim>\<open>Map\<close>s: a read \<^verbatim>\<open>store[key]\<close> that finds no own property goes on to the
  prototype, which is \<^verbatim>\<open>Object.prototype\<close> at the start, and a write to the key
  \<^verbatim>\<open>__proto__\<close> runs the setter inherited from \<^verbatim>\<open>Object.prototype\<close>, which replaces
  the prototype of the store by the object written instead of creating an own property.
  A store is therefore its own properties together with its prototype.
\<close>

record otp_rec =
  otp :: string
  expiry :: nat

text \<open>
  A profile object. \<^verbatim>\<open>POST /api/profile\<close> creates it with \<^verbatim>\<open>name\<close> and
  \<^verbatim>\<open>profilePicture\<close> (a path or \<^verbatim>\<open>null\<close>); \<^verbatim>\<open>about\<close> is added by an update.
  \<open>JUndefined\<close> in a field says that the object has no such own property.
\<close>

record user_rec =
  name :: jsval
  about :: jsval
  profilePicture :: jsval

datatype 'r prototype = ObjectPrototype | RecordProto 'r

record 'r store =
  own :: "string \<Rightarrow> 'r option"
  proto :: "'r prototype"

text \<open>
  What a read \<^verbatim>\<open>store[key]\<close> can evaluate to: a record object of the store, the object
  \<^verbatim>\<open>Object.prototype\<close> itself, one of its built-in functions, or a primitive value
  (\<open>Prim JUndefined\<close> when nothing is found).
\<close>

datatype 'r slot = Rec 'r | ObjProto | Builtin | Prim jsval

fun slot_truthy :: "'r slot \<Rightarrow> bool" where
  "slot_truthy (Rec r) = True"
| "slot_truthy ObjProto = True"
| "slot_truthy Builtin = True"
| "slot_truthy (Prim v) = truthy v"

text \<open>The function-valued properties of \<^verbatim>\<open>Object.prototype\<close> in Node.js.\<close>

definition object_prototype_methods :: "string list" where
  "object_prototype_methods =
     [''constructor'', ''hasOwnProperty'', ''isPrototypeOf'', ''propertyIsEnumerable'',
      ''toLocaleString'', ''toString'', ''valueOf'', ''__defineGetter__'',
      ''__defineSetter__'', ''__lookupGetter__'', ''__lookupSetter__'']"

definition otp_field :: "otp_rec \<Rightarrow> string \<Rightarrow> jsval" where
  "otp_field r k =
     (if k = ''otp'' then JStr (otp r)
      else if k = ''expiry'' then JNum (int (expiry r))
      else JUndefined)"

definition user_field :: "user_rec \<Rightarrow> string \<Rightarrow> jsval" where
  "user_field r k =
     (if k = ''name'' then name r
      else if k = ''about'' then about r
      else if k = ''profilePicture'' then profilePicture r
      else JUndefined)"

text \<open>
  A read that reaches \<^verbatim>\<open>Object.prototype\<close>. \<open>extra\<close> holds the properties that the
  program itself has added to \<^verbatim>\<open>Object.prototype\<close> (only \<^verbatim>\<open>name\<close>, \<^verbatim>\<open>about\<close>
  and \<^verbatim>\<open>profilePicture\<close> can be, see \<open>assignFields\<close>); \<open>self\<close> is what the
  \<^verbatim>\<open>__proto__\<close> getter returns, the prototype of the store that is read.
\<close>

definition inherited :: "user_rec \<Rightarrow> 'r slot \<Rightarrow> string \<Rightarrow> 'r slot" where
  "inherited extra self k =
     (if k = ''__proto__'' then self
      else if k \<in> set object_prototype_methods then Builtin
      else Prim (user_field extra k))"

text \<open>\<^verbatim>\<open>store[k]\<close>: own property, then the prototype chain.\<close>

definition getprop ::
  "('r \<Rightarrow> string \<Rightarrow> jsval) \<Rightarrow> user_rec \<Rightarrow> 'r store \<Rightarrow> string \<Rightarrow> 'r slot" where
  "getprop field extra s k =
     (case own s k of
        Some r \<Rightarrow> Rec r
      | None \<Rightarrow>
          (case proto s of
             RecordProto r \<Rightarrow>
               if field r k \<noteq> JUndefined then Prim (field r k) else inherited extra (Rec r) k
           | ObjectPrototype \<Rightarrow> inherited extra ObjProto k))"

text \<open>
  \<^verbatim>\<open>store[k] = r\<close> for an object \<open>r\<close>. Every inherited property but \<^verbatim>\<open>__proto__\<close> is a
  writable data property, so the write creates or replaces an own property.
\<close>

definition setprop :: "'r store \<Rightarrow> string \<Rightarrow> 'r \<Rightarrow> 'r store" where
  "setprop s k r =
     (if k = ''__proto__'' then s\<lparr>proto := RecordProto r\<rparr>
      else s\<lparr>own := (own s)(k \<mapsto> r)\<rparr>)"

text \<open>\<^verbatim>\<open>delete store[k]\<close> removes an own property and nothing else.\<close>

definition delprop :: "'r store \<Rightarrow> string \<Rightarrow> 'r store" where
  "delprop s k = s\<lparr>own := (own s)(k := None)\<rparr>"

subsection \<open>Process state and responses\<close>

record world =
  otpStore :: "otp_rec store"
  userStore :: "user_rec store"
  objectPrototype :: user_rec

definition empty_store :: "'r store" where
  "empty_store = \<lparr>own = Map.empty, proto = ObjectPrototype\<rparr>"

definition init_world :: world where
  "init_world =
     \<lparr>otpStore = empty_store, userStore = empty_store,
      objectPrototype = \<lparr>name = JUndefined, about = JUndefined, profilePicture = JUndefined\<rparr>\<rparr>"

text \<open>
  The call \<^verbatim>\<open>res.status(c).json({ success, message, user })\<close> that a handler ends
  with: the status and the body it hands to Express. What the caller receives from the
  call is \<open>deliver\<close> below.
\<close>

record response =
  status :: nat
  success :: bool
  message :: "string option"
  user :: "user_rec slot option"

definition reply :: "nat \<Rightarrow> bool \<Rightarrow> string \<Rightarrow> response" where
  "reply c ok m = \<lparr>status = c, success = ok, message = Some m, user = None\<rparr>"

text \<open>
  What the caller receives from \<^verbatim>\<open>res.status(c).json(body)\<close>. Node.js refuses a
  status code outside 100..999: the call throws (inside the error-handling middleware too),
  and Express's final handler answers with status 500 and its own HTML page. With an
  informational code (100..199), with 204 and with 304 the body is dropped, and Express
  (from 4.18 on) also sends 205 without a body. Every other code is sent with the JSON
  body.
\<close>

datatype delivery = Json response | NoBody nat | ErrorPage

definition deliver :: "response \<Rightarrow> delivery" where
  "deliver r =
     (if status r < 100 \<or> 999 < status r then ErrorPage
      else if status r < 200 \<or> status r = 204 \<or> status r = 205 \<or> status r = 304
      then NoBody (status r)
      else Json r)"


text \<open>An error object as the middleware reads it.\<close>

record js_error =
  clientMessage :: "string option"
  statusCode :: "nat option"

text \<open>
  Lines 196-204, the error-handling middleware: the call of line 203, with the status code
  of the error when it has one. The caller receives \<open>deliver (errorHandler err)\<close>.
\<close>

definition errorHandler :: "js_error \<Rightarrow> response" where
  "errorHandler err =
     (let clientMsg =
            (case clientMessage err of
               Some m \<Rightarrow> if m \<noteq> [] then m else ''An internal server error occurred.''
             | None \<Rightarrow> ''An internal server error occurred.'');
          code =
            (case statusCode err of
               Some c \<Rightarrow> if c \<noteq> 0 then c else 500
             | None \<Rightarrow> 500)
      in reply code False clientMsg)"

text \<open>
  A \<^verbatim>\<open>TypeError\<close> thrown inside a synchronous handler: Express passes it to the
  middleware; it carries neither \<^verbatim>\<open>clientMessage\<close> nor \<^verbatim>\<open>statusCode\<close>.
\<close>

definition typeError :: js_error where
  "typeError = \<lparr>clientMessage = None, statusCode = None\<rparr>"

text \<open>The awaited \<^verbatim>\<open>client.messages.create(...)\<close>: a message with its SID, or a rejection.\<close>

datatype sms_result = Delivered string | Rejected js_error

subsection \<open>POST /api/send-otp (lines 52-88)\<close>

definition send_otp ::
  "world \<Rightarrow> nat \<Rightarrow> nat \<Rightarrow> sms_result \<Rightarrow> string option \<Rightarrow> world \<times> response" where
  "send_otp w now x sms phoneNumber =
     (case phoneNumber of
        None \<Rightarrow> (w, reply 400 False ''Phone number is required.'')
      | Some p \<Rightarrow>
          if p = [] then (w, reply 400 False ''Phone number is required.'')
          else
            let code = generateOtp x;
                exp = now + 5 * 60 * 1000;
                w' = w\<lparr>otpStore := setprop (otpStore w) p \<lparr>otp = code, expiry = exp\<rparr>\<rparr>
            in (case sms of
                  Delivered sid \<Rightarrow> (w', reply 200 True ''OTP sent successfully.'')
                | Rejected err \<Rightarrow>
                    (w', errorHandler
                           (err\<lparr>clientMessage :=
                                  Some ''Failed to send OTP. Please check the phone number and try again.''\<rparr>))))"

subsection \<open>POST /api/verify-otp (lines 94-117)\<close>

text \<open>
  When \<^verbatim>\<open>otpStore[phoneNumber]\<close> is truthy but no record (a built-in function,
  \<^verbatim>\<open>Object.prototype\<close>, a primitive), its \<^verbatim>\<open>expiry\<close> and \<^verbatim>\<open>otp\<close> are
  \<^verbatim>\<open>undefined\<close>: the comparison with \<^verbatim>\<open>Date.now()\<close> is false and
  \<^verbatim>\<open>storedOtpData.otp.toString()\<close> throws a \<^verbatim>\<open>TypeError\<close>.
\<close>

definition verify_otp ::
  "world \<Rightarrow> nat \<Rightarrow> string option \<Rightarrow> jsval \<Rightarrow> world \<times> response" where
  "verify_otp w now phoneNumber submitted =
     (case phoneNumber of
        None \<Rightarrow> (w, reply 400 False ''Phone number and OTP are required.'')
      | Some p \<Rightarrow>
          if p = [] \<or> \<not> truthy submitted
          then (w, reply 400 False ''Phone number and OTP are required.'')
          else
            let storedOtpData = getprop otp_field (objectPrototype w) (otpStore w) p in
            if \<not> slot_truthy storedOtpData
            then (w, reply 400 False ''OTP not found. Please request a new one.'')
            else
              (case storedOtpData of
                 Rec r \<Rightarrow>
                   if now > expiry r
                   then (w, reply 400 False ''OTP has expired. Please request a new one.'')
                   else if JStr (otp r) = submitted
                   then (w\<lparr>otpStore := delprop (otpStore w) p\<rparr>,
                         reply 200 True ''Phone number verified successfully.'')
                   else (w, reply 400 False ''Invalid OTP.'')
               | _ \<Rightarrow> (w, errorHandler typeError)))"

text \<open>The outcomes of a verification, by the names the specification gives them.\<close>

definition verified :: response where
  "verified = reply 200 True ''Phone number verified successfully.''"

definition otp_not_found :: response where
  "otp_not_found = reply 400 False ''OTP not found. Please request a new one.''"

definition otp_expired :: response where
  "otp_expired = reply 400 False ''OTP has expired. Please request a new one.''"

definition otp_mismatch :: response where
  "otp_mismatch = reply 400 False ''Invalid OTP.''"

definition internal_error :: response where
  "internal_error = reply 500 False ''An internal server error occurred.''"

subsection \<open>Request bodies\<close>

text \<open>
  \<^verbatim>\<open>req.body\<close> is an ordinary object when \<^verbatim>\<open>express.json()\<close> has parsed it
  (it inherits from \<^verbatim>\<open>Object.prototype\<close>), and an object without a prototype when
  multer has built it from a multipart form. \<open>bodyField\<close> is the read
  \<^verbatim>\<open>req.body[k]\<close> for the keys \<^verbatim>\<open>name\<close> and \<^verbatim>\<open>about\<close>: the own field, else
  what \<^verbatim>\<open>Object.prototype\<close> holds under the key (\<open>extra\<close>).
\<close>

datatype body = JsonBody "string \<Rightarrow> jsval option" | FormBody "string \<Rightarrow> jsval option"

definition bodyField :: "user_rec \<Rightarrow> body \<Rightarrow> string \<Rightarrow> jsval" where
  "bodyField extra b k =
     (case b of
        JsonBody m \<Rightarrow> (case m k of Some v \<Rightarrow> v | None \<Rightarrow> user_field extra k)
      | FormBody m \<Rightarrow> (case m k of Some v \<Rightarrow> v | None \<Rightarrow> JUndefined))"

subsection \<open>POST /api/profile (lines 137-153)\<close>

text \<open>
  \<open>file\<close> is \<^verbatim>\<open>req.file.path\<close> when multer received a file, \<open>None\<close> otherwise.
  \<open>post_profile\<close> is the handler from line 140 on, given the values that line 138
  binds; \<open>post_profile_req\<close> is the whole handler.
\<close>

definition post_profile ::
  "world \<Rightarrow> jsval \<Rightarrow> string option \<Rightarrow> string option \<Rightarrow> world \<times> response" where
  "post_profile w nm phoneNumber file =
     (case phoneNumber of
        None \<Rightarrow> (w, reply 400 False ''Name and phone number are required.'')
      | Some p \<Rightarrow>
          if \<not> truthy nm \<or> p = []
          then (w, reply 400 False ''Name and phone number are required.'')
          else
            let profilePicturePath = (case file of Some path \<Rightarrow> JStr path | None \<Rightarrow> JNull)
            in (w\<lparr>userStore := setprop (userStore w) p
                     \<lparr>name = nm, about = JUndefined, profilePicture = profilePicturePath\<rparr>\<rparr>,
                reply 200 True ''Profile updated successfully.''))"

definition post_profile_req ::
  "world \<Rightarrow> body \<Rightarrow> string option \<Rightarrow> string option \<Rightarrow> world \<times> response" where
  "post_profile_req w b phoneNumber file =
     post_profile w (bodyField (objectPrototype w) b ''name'') phoneNumber file"

subsection \<open>PUT /api/profile/:phoneNumber (lines 159-182)\<close>

text \<open>Lines 169-178: the three guarded assignments to \<^verbatim>\<open>user\<close>.\<close>

definition setFields :: "jsval \<Rightarrow> jsval \<Rightarrow> string option \<Rightarrow> user_rec \<Rightarrow> user_rec" where
  "setFields nm ab file r =
     (let r1 = (if truthy nm then r\<lparr>name := nm\<rparr> else r);
          r2 = (if truthy ab then r1\<lparr>about := ab\<rparr> else r1)
      in (case file of Some path \<Rightarrow> r2\<lparr>profilePicture := JStr path\<rparr> | None \<Rightarrow> r2))"

text \<open>
  Where the assignments land. \<^verbatim>\<open>user\<close> is a reference: to a record that is an own
  property of the store, to the record that is the store's prototype, or to
  \<^verbatim>\<open>Object.prototype\<close> itself, and then the properties are added to
  \<^verbatim>\<open>Object.prototype\<close>. When \<^verbatim>\<open>user\<close> is a built-in function or a primitive the
  assignments change nothing that the handlers read (the file is not in strict mode, so
  an assignment to a primitive's property is ignored).
\<close>

definition assignFields :: "world \<Rightarrow> string \<Rightarrow> (user_rec \<Rightarrow> user_rec) \<Rightarrow> world" where
  "assignFields w p f =
     (case own (userStore w) p of
        Some r \<Rightarrow> w\<lparr>userStore := (userStore w)\<lparr>own := (own (userStore w))(p \<mapsto> f r)\<rparr>\<rparr>
      | None \<Rightarrow>
          if p = ''__proto__''
          then (case proto (userStore w) of
                  RecordProto r \<Rightarrow> w\<lparr>userStore := (userStore w)\<lparr>proto := RecordProto (f r)\<rparr>\<rparr>
                | ObjectPrototype \<Rightarrow> w\<lparr>objectPrototype := f (objectPrototype w)\<rparr>)
          else w)"

definition put_profile ::
  "world \<Rightarrow> string \<Rightarrow> jsval \<Rightarrow> jsval \<Rightarrow> string option \<Rightarrow> world \<times> response" where
  "put_profile w phoneNumber nm ab file =
     (if \<not> slot_truthy (getprop user_field (objectPrototype w) (userStore w) phoneNumber)
      then (w, reply 404 False ''User not found.'')
      else
        let w' = assignFields w phoneNumber (setFields nm ab file)
        in (w', \<lparr>status = 200, success = True,
                 message = Some ''Profile updated successfully.'',
                 user = Some (getprop user_field (objectPrototype w') (userStore w') phoneNumber)\<rparr>))"

text \<open>
  \<open>put_profile\<close> above is the handler from line 162 on, given the values that line 161
  binds. The whole handler binds them from the body first, through the prototype chain.
\<close>

definition put_profile_req ::
  "world \<Rightarrow> string \<Rightarrow> body \<Rightarrow> string option \<Rightarrow> world \<times> response" where
  "put_profile_req w phoneNumber b file =
     put_profile w phoneNumber
       (bodyField (objectPrototype w) b ''name'') (bodyField (objectPrototype w) b ''about'') file"

subsection \<open>GET /api/profile/:phoneNumber (lines 188-192)\<close>

definition get_profile :: "world \<Rightarrow> string \<Rightarrow> response" where
  "get_profile w phoneNumber =
     (let u = getprop user_field (objectPrototype w) (userStore w) phoneNumber
      in if slot_truthy u
         then \<lparr>status = 200, success = True, message = None, user = Some u\<rparr>
         else reply 404 False ''User not found.'')"

definition user_not_found :: response where
  "user_not_found = reply 404 False ''User not found.''"

subsection \<open>States the server can be in\<close>

inductive reachable :: "world \<Rightarrow> bool" where
  start: "reachable init_world"
| sent: "reachable w \<Longrightarrow> reachable (fst (send_otp w now x sms phoneNumber))"
| checked: "reachable w \<Longrightarrow> reachable (fst (verify_otp w now phoneNumber submitted))"
| posted: "reachable w \<Longrightarrow> reachable (fst (post_profile w nm phoneNumber file))"
| updated: "reachable w \<Longrightarrow> reachable (fst (put_profile w phoneNumber nm ab file))"

text \<open>
  Every request to \<open>post_profile_req\<close> or \<open>put_profile_req\<close> is a step of
  \<open>reachable\<close>, with the values it binds (\<open>reachable_post_req\<close>,
  \<open>reachable_put_req\<close> below).
\<close>

text \<open>
  What every reachable state satisfies (\<open>reachable_inv\<close> below): no write creates an own
  property \<^verbatim>\<open>__proto__\<close>, the empty key is never written to the OTP store, and every
  stored code is a code that the issuer generated.
\<close>

definition store_inv :: "world \<Rightarrow> bool" where
  "store_inv w \<longleftrightarrow>
     own (otpStore w) ''__proto__'' = None \<and> own (otpStore w) [] = None \<and>
     own (userStore w) ''__proto__'' = None \<and>
     (\<forall>k r. own (otpStore w) k = Some r \<longrightarrow> (\<exists>x. otp r = generateOtp x)) \<and>
     (\<forall>r. proto (otpStore w) = RecordProto r \<longrightarrow> (\<exists>x. otp r = generateOtp x))"

subsection \<open>Three example states\<close>

text \<open>
  A fresh server that has issued one code, at clock 1000 and from the random bytes 0; a
  fresh server on which one profile has been created; and a fresh server that has answered
  \<^verbatim>\<open>PUT /api/profile/__proto__\<close> with the JSON body \<^verbatim>\<open>{"name":"Mallory"}\<close> and
  then \<^verbatim>\<open>POST /api/profile\<close> with \<^verbatim>\<open>{"name":"A","phoneNumber":"+1"}\<close>.
\<close>

definition demo_world :: world where
  "demo_world = fst (send_otp init_world 1000 0 (Delivered ''SM1'') (Some ''+15550100''))"

definition demo_profiles :: world where
  "demo_profiles = fst (post_profile init_world (JStr ''A'') (Some ''+1'') None)"

definition demo_polluted :: world where
  "demo_polluted =
     fst (post_profile_req
            (fst (put_profile_req init_world ''__proto__''
                    (JsonBody [''name'' \<mapsto> JStr ''Mallory'']) None))
            (JsonBody [''name'' \<mapsto> JStr ''A'', ''phoneNumber'' \<mapsto> JStr ''+1''])
            (Some ''+1'') None)"

section \<open>Auxiliary facts\<close>

subsection \<open>Digits\<close>

lemma digit_val_digit: "d < 10 \<Longrightarrow> digit_val (digit d) = d"
proof -
  assume "d < 10"
  then have "d = 0 \<or> d = 1 \<or> d = 2 \<or> d = 3 \<or> d = 4 \<or> d = 5 \<or> d = 6 \<or> d = 7 \<or> d = 8 \<or> d = 9"
    by arith
  then show ?thesis
    by (elim disjE) (simp_all add: digit_def digit_val_def)
qed

lemma digit_is_digit: "d < 10 \<Longrightarrow> digit d \<in> set ''0123456789''"
  unfolding digit_def by (rule nth_mem) simp

lemma parseDigits_snoc: "parseDigits (s @ [c]) = 10 * parseDigits s + digit_val c"
  by (simp add: parseDigits_def)

lemma parseDigits_toString: "parseDigits (toString n) = n"
proof (induction n rule: toString.induct)
  case (1 n)
  show ?case
  proof (cases "n < 10")
    case True
    then show ?thesis
      by (simp add: toString.simps [of n] parseDigits_def digit_val_digit)
  next
    case False
    with "1" have "parseDigits (toString (n div 10)) = n div 10" by simp
    with False show ?thesis
      by (simp add: toString.simps [of n] parseDigits_snoc digit_val_digit)
  qed
qed

lemma toString_inj: "toString m = toString n \<Longrightarrow> m = n"
  by (metis parseDigits_toString)

lemma set_toString: "set (toString n) \<subseteq> set ''0123456789''"
proof (induction n rule: toString.induct)
  case (1 n)
  show ?case
  proof (cases "n < 10")
    case True
    then show ?thesis
      using digit_is_digit [of n] by (simp add: toString.simps [of n])
  next
    case False
    with "1" have "set (toString (n div 10)) \<subseteq> set ''0123456789''" by simp
    moreover have "digit (n mod 10) \<in> set ''0123456789''"
      by (rule digit_is_digit) simp
    ultimately show ?thesis
      using False by (simp add: toString.simps [of n])
  qed
qed

lemma length_toString: "10 ^ k \<le> n \<Longrightarrow> n < 10 ^ Suc k \<Longrightarrow> length (toString n) = Suc k"
proof (induction k arbitrary: n)
  case 0
  then show ?case by (simp add: toString.simps [of n])
next
  case (Suc k)
  from Suc.prems have "10 \<le> n"
    by (metis le_trans one_le_numeral one_le_power power_Suc mult.right_neutral mult_le_mono2)
  moreover have "10 ^ k \<le> n div 10" using Suc.prems by (simp add: less_eq_div_iff_mult_less_eq)
  moreover have "n div 10 < 10 ^ Suc k" using Suc.prems by (simp add: div_less_iff_less_mult)
  ultimately show ?case
    using Suc.IH [of "n div 10"] by (simp add: toString.simps [of n])
qed

lemma length_toString_6: "100000 \<le> n \<Longrightarrow> n < 1000000 \<Longrightarrow> length (toString n) = 6"
  using length_toString [of 5 n] by simp

lemma randomInt_bounds: "lo < hi \<Longrightarrow> lo \<le> randomInt lo hi x \<and> randomInt lo hi x < hi"
proof -
  assume "lo < hi"
  then have "x mod (hi - lo) < hi - lo" by simp
  then show ?thesis unfolding randomInt_def by linarith
qed


subsection \<open>Generated codes\<close>

lemma generateOtp_range:
  "100000 \<le> randomInt 100000 999999 x \<and> randomInt 100000 999999 x < 999999"
  by (rule randomInt_bounds) simp

lemma generateOtp_length: "length (generateOtp x) = 6"
  unfolding generateOtp_def using generateOtp_range [of x] by (intro length_toString_6) simp_all

lemma generateOtp_nonempty: "generateOtp x \<noteq> []"
  using generateOtp_length [of x] by auto

subsection \<open>The invariant\<close>

lemma store_inv_init: "store_inv init_world"
  by (simp add: store_inv_def init_world_def empty_store_def)

lemma store_inv_send: "store_inv w \<Longrightarrow> store_inv (fst (send_otp w now x sms phoneNumber))"
  by (auto simp: store_inv_def send_otp_def setprop_def Let_def generateOtp_nonempty
      split: option.splits sms_result.splits)

lemma store_inv_verify: "store_inv w \<Longrightarrow> store_inv (fst (verify_otp w now phoneNumber submitted))"
  by (auto simp: store_inv_def verify_otp_def delprop_def Let_def
      split: option.splits slot.splits if_splits)

lemma store_inv_post: "store_inv w \<Longrightarrow> store_inv (fst (post_profile w nm phoneNumber file))"
  by (auto simp: store_inv_def post_profile_def setprop_def Let_def split: option.splits)

lemma otpStore_assignFields: "otpStore (assignFields w p f) = otpStore w"
  by (simp add: assignFields_def split: option.splits prototype.splits)

lemma own_assignFields_None:
  "own (userStore w) k = None \<Longrightarrow> own (userStore (assignFields w p f)) k = None"
  by (auto simp: assignFields_def split: option.splits prototype.splits)

lemma store_inv_put: "store_inv w \<Longrightarrow> store_inv (fst (put_profile w phoneNumber nm ab file))"
  by (simp add: store_inv_def put_profile_def Let_def otpStore_assignFields own_assignFields_None)

lemma reachable_inv: "reachable w \<Longrightarrow> store_inv w"
  by (induction rule: reachable.induct) (simp_all add: store_inv_init store_inv_send store_inv_verify store_inv_post store_inv_put)

subsection \<open>What the caller receives\<close>




lemma deliver_fixed:
  "deliver (reply 200 ok m) = Json (reply 200 ok m)"
  "deliver (reply 400 ok m) = Json (reply 400 ok m)"
  "deliver (reply 404 ok m) = Json (reply 404 ok m)"
  "deliver (reply 500 ok m) = Json (reply 500 ok m)"
  by (simp_all add: deliver_def reply_def)

subsection \<open>Requests as steps\<close>

lemma reachable_post_req:
  "reachable w \<Longrightarrow> reachable (fst (post_profile_req w b phoneNumber file))"
  unfolding post_profile_req_def by (rule reachable.posted)

lemma reachable_put_req:
  "reachable w \<Longrightarrow> reachable (fst (put_profile_req w phoneNumber b file))"
  unfolding put_profile_req_def by (rule reachable.updated)

subsection \<open>Reads and writes of a store\<close>

lemma otp_field_proto [simp]: "otp_field r ''__proto__'' = JUndefined"
  by (simp add: otp_field_def)

lemma user_field_proto [simp]: "user_field r ''__proto__'' = JUndefined"
  by (simp add: user_field_def)

lemma inherited_Rec: "inherited extra self k = Rec r \<Longrightarrow> k = ''__proto__'' \<and> self = Rec r"
  by (auto simp: inherited_def split: if_splits)

text \<open>
  A record found by a read is an own property, or the store's prototype read through
  \<^verbatim>\<open>__proto__\<close>.
\<close>

lemma getprop_Rec:
  "getprop field extra s k = Rec r \<longleftrightarrow>
     own s k = Some r \<or>
     (own s k = None \<and> k = ''__proto__'' \<and> proto s = RecordProto r \<and> field r k = JUndefined)"
  by (auto simp: getprop_def inherited_def split: option.splits prototype.splits if_splits)

lemma stored_code_generated:
  assumes "store_inv w" "getprop otp_field (objectPrototype w) (otpStore w) P = Rec r"
  shows "\<exists>x. otp r = generateOtp x"
  using assms unfolding store_inv_def getprop_Rec by blast

lemma stored_code_nonempty:
  assumes "store_inv w" "getprop otp_field (objectPrototype w) (otpStore w) P = Rec r"
  shows "otp r \<noteq> [] \<and> P \<noteq> []"
proof -
  from stored_code_generated [OF assms] obtain x where "otp r = generateOtp x" ..
  then have "otp r \<noteq> []"
    by (simp add: generateOtp_nonempty)
  moreover have "P \<noteq> []"
    using assms by (auto simp: store_inv_def getprop_Rec)
  ultimately show ?thesis by simp
qed

lemma stored_code_number:
  assumes "store_inv w" "getprop otp_field (objectPrototype w) (otpStore w) P = Rec r"
    and "otp r = toString n"
  shows "100000 \<le> n \<and> n < 999999"
proof -
  from stored_code_generated [OF assms(1,2)] obtain x where "otp r = generateOtp x" ..
  with assms(3) have "n = randomInt 100000 999999 x"
    by (simp add: generateOtp_def toString_inj)
  then show ?thesis by (simp add: generateOtp_range)
qed

lemma getprop_setprop_otp:
  "own s ''__proto__'' = None \<Longrightarrow> getprop otp_field extra (setprop s k r) k = Rec r"
  by (simp add: getprop_def setprop_def inherited_def)

lemma getprop_setprop_user:
  "own s ''__proto__'' = None \<Longrightarrow> getprop user_field extra (setprop s k r) k = Rec r"
  by (simp add: getprop_def setprop_def inherited_def)

lemma setprop_twice: "setprop (setprop s k r1) k r2 = setprop s k r2"
  by (simp add: setprop_def)

subsection \<open>The handlers on a stored record\<close>

lemma verify_on_record:
  assumes "getprop otp_field (objectPrototype w) (otpStore w) P = Rec r" "P \<noteq> []" "truthy v"
  shows "verify_otp w now (Some P) v =
           (if now > expiry r then (w, otp_expired)
            else if JStr (otp r) = v then (w\<lparr>otpStore := delprop (otpStore w) P\<rparr>, verified)
            else (w, otp_mismatch))"
  using assms by (simp add: verify_otp_def otp_expired_def verified_def otp_mismatch_def)

lemma verify_unchanged:
  "snd (verify_otp w now phoneNumber v) \<noteq> verified \<Longrightarrow> fst (verify_otp w now phoneNumber v) = w"
  by (auto simp: verify_otp_def verified_def Let_def split: option.splits slot.splits if_splits)

lemma responses_distinct:
  "otp_mismatch \<noteq> verified" "otp_expired \<noteq> verified" "otp_mismatch \<noteq> otp_expired"
  "otp_not_found \<noteq> otp_expired" "otp_not_found \<noteq> verified" "otp_not_found \<noteq> otp_mismatch"
  "internal_error \<noteq> otp_not_found" "internal_error \<noteq> verified"
  by (simp_all add: otp_mismatch_def verified_def otp_expired_def otp_not_found_def
      internal_error_def reply_def)

lemma send_otp_state:
  "P \<noteq> [] \<Longrightarrow>
   fst (send_otp w now x sms (Some P)) =
     w\<lparr>otpStore := setprop (otpStore w) P \<lparr>otp = generateOtp x, expiry = now + 300000\<rparr>\<rparr>"
  by (simp add: send_otp_def Let_def split: sms_result.splits)

lemma issued_record:
  assumes "store_inv w" "P \<noteq> []"
  shows "getprop otp_field (objectPrototype (fst (send_otp w now x sms (Some P))))
           (otpStore (fst (send_otp w now x sms (Some P)))) P =
         Rec \<lparr>otp = generateOtp x, expiry = now + 300000\<rparr>"
  using assms by (simp add: send_otp_state getprop_setprop_otp store_inv_def)

subsection \<open>Profile updates\<close>

lemma getprop_assignFields:
  assumes "getprop user_field (objectPrototype w) (userStore w) P = Rec r"
  shows "getprop user_field (objectPrototype (assignFields w P f))
           (userStore (assignFields w P f)) P = Rec (f r)"
  using assms
  by (auto simp: getprop_Rec assignFields_def split: option.splits prototype.splits)

lemma own_assignFields_other:
  "Q \<noteq> P \<Longrightarrow> own (userStore (assignFields w P f)) Q = own (userStore w) Q"
  by (cases "own (userStore w) P"; cases "proto (userStore w)") (simp_all add: assignFields_def)

lemma put_on_record:
  assumes "getprop user_field (objectPrototype w) (userStore w) P = Rec r"
  shows "put_profile w P nm ab file =
           (assignFields w P (setFields nm ab file),
            \<lparr>status = 200, success = True, message = Some ''Profile updated successfully.'',
             user = Some (Rec (setFields nm ab file r))\<rparr>)"
  using assms by (simp add: put_profile_def Let_def getprop_assignFields)

lemma setFields_empty_name: "setFields (JStr []) ab file = setFields JUndefined ab file"
  by (simp add: setFields_def fun_eq_iff)

lemma setFields_empty_about: "setFields nm (JStr []) file = setFields nm JUndefined file"
  by (simp add: setFields_def fun_eq_iff)

lemma setFields_name: "name (setFields nm ab file r) = (if truthy nm then nm else name r)"
  by (cases "file") (simp_all add: setFields_def Let_def)

lemma setFields_about: "about (setFields nm ab file r) = (if truthy ab then ab else about r)"
  by (cases "file") (simp_all add: setFields_def Let_def)

lemma setFields_picture:
  "profilePicture (setFields nm ab file r) =
     (case file of Some path \<Rightarrow> JStr path | None \<Rightarrow> profilePicture r)"
  by (cases "file") (simp_all add: setFields_def Let_def)

text \<open>
  An update of an existing record \<open>r\<close>, from the bound values on: the record becomes
  \<open>setFields nm ab file r\<close>, whose fields \<open>setFields_name\<close>, \<open>setFields_about\<close> and
  \<open>setFields_picture\<close> give, and nothing else of the stores changes.
\<close>

lemma update_of_record:
  assumes "getprop user_field (objectPrototype w) (userStore w) P = Rec r"
    and "put_profile w P nm ab file = (w', resp)"
  shows "getprop user_field (objectPrototype w') (userStore w') P = Rec (setFields nm ab file r) \<and>
         user resp = Some (Rec (setFields nm ab file r)) \<and>
         (\<forall>Q. Q \<noteq> P \<longrightarrow> own (userStore w') Q = own (userStore w) Q) \<and>
         otpStore w' = otpStore w"
proof -
  from assms have w': "w' = assignFields w P (setFields nm ab file)"
    and resp: "user resp = Some (Rec (setFields nm ab file r))"
    by (auto simp: put_on_record)
  have "getprop user_field (objectPrototype w') (userStore w') P = Rec (setFields nm ab file r)"
    unfolding w' by (rule getprop_assignFields [OF assms(1)])
  moreover have "\<forall>Q. Q \<noteq> P \<longrightarrow> own (userStore w') Q = own (userStore w) Q"
    unfolding w' by (simp add: own_assignFields_other)
  moreover have "otpStore w' = otpStore w"
    unfolding w' by (rule otpStore_assignFields)
  ultimately show ?thesis using resp by blast
qed

text \<open>
  A name or an about bound to the empty string has the effect of one bound to
  \<^verbatim>\<open>undefined\<close>, and no update makes a name or an about the empty string.
\<close>

lemma empty_string_as_undefined:
  "put_profile w P (JStr []) ab file = put_profile w P JUndefined ab file"
  "put_profile w P nm (JStr []) file = put_profile w P nm JUndefined file"
  by (simp_all add: put_profile_def setFields_empty_name setFields_empty_about)

lemma never_cleared:
  "name (setFields nm ab file r) = JStr [] \<Longrightarrow> name r = JStr []"
  "about (setFields nm ab file r) = JStr [] \<Longrightarrow> about r = JStr []"
  by (auto simp: setFields_name setFields_about split: if_splits)

text \<open>
  The binding of line 161. A multipart body binds its own fields; a JSON body binds its own
  fields too as long as \<^verbatim>\<open>Object.prototype\<close> holds neither a name nor an about.
\<close>

lemma put_profile_req_form:
  "put_profile_req w P (FormBody m) file =
     put_profile w P (case m ''name'' of Some v \<Rightarrow> v | None \<Rightarrow> JUndefined)
       (case m ''about'' of Some v \<Rightarrow> v | None \<Rightarrow> JUndefined) file"
  by (simp add: put_profile_req_def bodyField_def)

lemma put_profile_req_clean:
  assumes "name (objectPrototype w) = JUndefined" and "about (objectPrototype w) = JUndefined"
  shows "put_profile_req w P (JsonBody m) file =
     put_profile w P (case m ''name'' of Some v \<Rightarrow> v | None \<Rightarrow> JUndefined)
       (case m ''about'' of Some v \<Rightarrow> v | None \<Rightarrow> JUndefined) file"
  using assms by (simp add: put_profile_req_def bodyField_def user_field_def split: option.splits)

subsection \<open>Keys under which nothing is inherited\<close>

text \<open>
  For a phone number under which the store object inherits nothing, a code is good for one
  verification: the first one succeeds and deletes the record, the second one finds
  nothing.
\<close>

lemma delprop_setprop:
  "k \<noteq> ''__proto__'' \<Longrightarrow> delprop (setprop s k r) k = delprop s k"
  by (simp add: delprop_def setprop_def)

lemma getprop_proto_truthy:
  "own s ''__proto__'' = None \<Longrightarrow> slot_truthy (getprop otp_field extra s ''__proto__'')"
  by (simp add: getprop_def inherited_def split: prototype.splits)

lemma single_use_when_nothing_inherited:
  assumes "reachable w" and "P \<noteq> []"
    and "\<not> slot_truthy (getprop otp_field (objectPrototype w) (delprop (otpStore w) P) P)"
    and "w1 = fst (send_otp w t0 x sms (Some P))"
    and "t \<le> t0 + 5 * 60 * 1000"
    and "w2 = w1\<lparr>otpStore := delprop (otpStore w1) P\<rparr>"
  shows "verify_otp w1 t (Some P) (JStr (generateOtp x)) = (w2, verified) \<and>
         own (otpStore w2) P = None \<and>
         verify_otp w2 t' (Some P) (JStr (generateOtp x)) = (w2, otp_not_found)"
proof -
  from assms(1) have inv: "store_inv w" by (rule reachable_inv)
  have rec: "getprop otp_field (objectPrototype w1) (otpStore w1) P =
      Rec \<lparr>otp = generateOtp x, expiry = t0 + 300000\<rparr>"
    unfolding assms(4) by (rule issued_record [OF inv assms(2)])
  have first: "verify_otp w1 t (Some P) (JStr (generateOtp x)) = (w2, verified)"
    using assms(5) by (simp add: verify_on_record [OF rec assms(2)] generateOtp_nonempty assms(6))
  have "own (delprop (otpStore w) ''__proto__'') ''__proto__'' = None"
    by (simp add: delprop_def)
  with assms(3) have key: "P \<noteq> ''__proto__''"
    using getprop_proto_truthy [of "delprop (otpStore w) ''__proto__''" "objectPrototype w"]
    by auto
  have store: "otpStore w2 = delprop (otpStore w) P"
    unfolding assms(6) assms(4) using assms(2) key
    by (simp add: send_otp_state delprop_setprop)
  have extra: "objectPrototype w2 = objectPrototype w"
    unfolding assms(6) assms(4) using assms(2) by (simp add: send_otp_state)
  have gone: "own (otpStore w2) P = None"
    unfolding store by (simp add: delprop_def)
  have "verify_otp w2 t' (Some P) (JStr (generateOtp x)) = (w2, otp_not_found)"
    using assms(2,3)
    by (simp add: verify_otp_def store extra generateOtp_nonempty otp_not_found_def)
  with first gone show ?thesis by simp
qed

text \<open>
  An update of a key whose read is falsy is answered with 404 and changes nothing; a
  creation with a name and a phone number writes the record.
\<close>

lemma update_of_unknown_key_not_found:
  "\<not> slot_truthy (getprop user_field (objectPrototype w) (userStore w) P) \<Longrightarrow>
   put_profile w P nm ab file = (w, user_not_found)"
  by (simp add: put_profile_def user_not_found_def)

lemma create_writes_record:
  assumes "reachable w" and "truthy nm" and "P \<noteq> []"
  shows "post_profile w nm (Some P) file =
           (w\<lparr>userStore := setprop (userStore w) P
               \<lparr>name = nm, about = JUndefined,
                profilePicture = (case file of Some path \<Rightarrow> JStr path | None \<Rightarrow> JNull)\<rparr>\<rparr>,
            reply 200 True ''Profile updated successfully.'') \<and>
         getprop user_field (objectPrototype (fst (post_profile w nm (Some P) file)))
           (userStore (fst (post_profile w nm (Some P) file))) P =
           Rec \<lparr>name = nm, about = JUndefined,
                profilePicture = (case file of Some path \<Rightarrow> JStr path | None \<Rightarrow> JNull)\<rparr>"
proof -
  from assms(1) have "store_inv w" by (rule reachable_inv)
  then have "own (userStore w) ''__proto__'' = None" by (simp add: store_inv_def)
  with assms(2,3) show ?thesis
    by (simp add: post_profile_def getprop_setprop_user)
qed

subsection \<open>The example states\<close>

lemma generateOtp_0: "generateOtp 0 = ''100000''"
  by (simp add: generateOtp_def randomInt_def toString.simps digit_def)

lemma generateOtp_wrap: "generateOtp 899999 = ''100000''"
  by (simp add: generateOtp_def randomInt_def toString.simps digit_def)

lemma generateOtp_7: "generateOtp 7 = ''100007''"
  by (simp add: generateOtp_def randomInt_def toString.simps digit_def)

lemma reachable_demo_world: "reachable demo_world"
  unfolding demo_world_def by (rule reachable.sent [OF reachable.start])

lemma demo_world_record:
  "getprop otp_field (objectPrototype demo_world) (otpStore demo_world) ''+15550100'' =
     Rec \<lparr>otp = ''100000'', expiry = 301000\<rparr>"
  unfolding demo_world_def
  using issued_record [OF store_inv_init, of "''+15550100''" 1000 0 "Delivered ''SM1''"]
  by (simp add: generateOtp_0)

lemma demo_verify:
  "truthy v \<Longrightarrow> verify_otp demo_world now (Some ''+15550100'') v =
     (if now > 301000 then (demo_world, otp_expired)
      else if JStr ''100000'' = v
      then (demo_world\<lparr>otpStore := delprop (otpStore demo_world) ''+15550100''\<rparr>, verified)
      else (demo_world, otp_mismatch))"
  using verify_on_record [OF demo_world_record, of v now] by simp

lemma demo_profiles_record:
  "getprop user_field (objectPrototype demo_profiles) (userStore demo_profiles) ''+1'' =
     Rec \<lparr>name = JStr ''A'', about = JUndefined, profilePicture = JNull\<rparr>"
  by (simp add: demo_profiles_def post_profile_def getprop_setprop_user init_world_def
      empty_store_def)

text \<open>The example of the specification on a fresh server.\<close>

lemma example_on_fresh_server:
  "get_profile
     (fst (put_profile_req demo_profiles ''+1'' (JsonBody [''about'' \<mapsto> JStr ''hi'']) None))
     ''+1'' =
   \<lparr>status = 200, success = True, message = None,
    user = Some (Rec \<lparr>name = JStr ''A'', about = JStr ''hi'', profilePicture = JNull\<rparr>)\<rparr>"
proof -
  have clean: "name (objectPrototype demo_profiles) = JUndefined"
    "about (objectPrototype demo_profiles) = JUndefined"
    by (simp_all add: demo_profiles_def post_profile_def init_world_def)
  have "getprop user_field
      (objectPrototype (fst (put_profile demo_profiles ''+1'' JUndefined (JStr ''hi'') None)))
      (userStore (fst (put_profile demo_profiles ''+1'' JUndefined (JStr ''hi'') None))) ''+1'' =
    Rec (setFields JUndefined (JStr ''hi'') None
           \<lparr>name = JStr ''A'', about = JUndefined, profilePicture = JNull\<rparr>)"
    using update_of_record [OF demo_profiles_record, of JUndefined "JStr ''hi''" None]
    by (simp add: prod_eq_iff)
  then show ?thesis
    by (simp add: put_profile_req_clean [OF clean] get_profile_def setFields_def)
qed

lemma reachable_demo_polluted: "reachable demo_polluted"
  unfolding demo_polluted_def
  by (intro reachable_post_req reachable_put_req reachable.start)

lemma demo_polluted_state:
  "demo_polluted =
     \<lparr>otpStore = empty_store,
      userStore = \<lparr>own = [''+1'' \<mapsto> \<lparr>name = JStr ''A'', about = JUndefined, profilePicture = JNull\<rparr>],
                   proto = ObjectPrototype\<rparr>,
      objectPrototype = \<lparr>name = JStr ''Mallory'', about = JUndefined, profilePicture = JUndefined\<rparr>\<rparr>"
  by (simp add: demo_polluted_def post_profile_req_def put_profile_req_def post_profile_def
      put_profile_def bodyField_def assignFields_def setFields_def getprop_def inherited_def
      setprop_def init_world_def empty_store_def user_field_def object_prototype_methods_def
      Let_def)

section \<open>The claims\<close>

text \<open>
  Claim C1 does not hold for phone numbers that name an inherited property of the store
  object, whether or not the SMS is delivered. On a fresh server, the record written for
  \<^verbatim>\<open>__proto__\<close> becomes the prototype of \<^verbatim>\<open>otpStore\<close>;
  \<^verbatim>\<open>delete otpStore[phoneNumber]\<close> does not remove it, so the successful verification
  leaves the state as it was and the same code verifies a second time. A code issued for
  \<^verbatim>\<open>constructor\<close> verifies once and its record is deleted, but the second
  verification reads the inherited function \<^verbatim>\<open>Object\<close>, throws a
  \<^verbatim>\<open>TypeError\<close> and ends as a 500 response, not as the 400 response
  \<^verbatim>\<open>OTP not found\<close>.
\<close>

theorem inherited_key_breaks_single_use:
  "(let w1 = fst (send_otp init_world 1000 0 sms (Some ''__proto__''));
        w2 = fst (verify_otp w1 2000 (Some ''__proto__'') (JStr ''100000''))
    in snd (verify_otp w1 2000 (Some ''__proto__'') (JStr ''100000'')) = verified \<and>
       w2 = w1 \<and>
       snd (verify_otp w2 2000 (Some ''__proto__'') (JStr ''100000'')) = verified) \<and>
   (let w1 = fst (send_otp init_world 1000 0 sms (Some ''constructor''));
        w2 = fst (verify_otp w1 2000 (Some ''constructor'') (JStr ''100000''))
    in snd (verify_otp w1 2000 (Some ''constructor'') (JStr ''100000'')) = verified \<and>
       own (otpStore w2) ''constructor'' = None \<and>
       snd (verify_otp w2 2000 (Some ''constructor'') (JStr ''100000'')) = internal_error \<and>
       internal_error \<noteq> otp_not_found)"
  by (simp add: send_otp_state verify_otp_def generateOtp_0 setprop_def delprop_def getprop_def
      inherited_def object_prototype_methods_def init_world_def empty_store_def otp_field_def
      verified_def internal_error_def otp_not_found_def errorHandler_def typeError_def
      reply_def Let_def)

text \<open>
  Claim C2. For every phone number \<open>P\<close> under which a reachable state holds an OTP
  record, a verification that does not succeed leaves the whole state, and so the OTP
  store, unchanged. After a Mismatch the stored code still verifies at every clock time up
  to the record's expiry; after an Expired result the record is still there, and every
  later verification finds it and fails with Expired again.
\<close>

theorem failed_verification_keeps_store:
  assumes reach: "reachable w"
    and stored: "getprop otp_field (objectPrototype w) (otpStore w) P = Rec r"
    and run: "verify_otp w t (Some P) v = (w', resp)"
    and failed: "resp \<noteq> verified"
  shows "w' = w \<and>
         (resp = otp_mismatch \<longrightarrow>
            (\<forall>t'. t' \<le> expiry r \<longrightarrow>
               verify_otp w' t' (Some P) (JStr (otp r)) =
                 (w'\<lparr>otpStore := delprop (otpStore w') P\<rparr>, verified))) \<and>
         (resp = otp_expired \<longrightarrow>
            (\<forall>t' v'. t \<le> t' \<and> truthy v' \<longrightarrow> verify_otp w' t' (Some P) v' = (w', otp_expired)))"
proof -
  from reach have "store_inv w" by (rule reachable_inv)
  with stored have code: "otp r \<noteq> []" and key: "P \<noteq> []"
    using stored_code_nonempty by blast+
  from run failed have same: "w' = w"
    using verify_unchanged [of w t "Some P" v] by simp
  have retry: "verify_otp w t' (Some P) (JStr (otp r)) =
                 (w\<lparr>otpStore := delprop (otpStore w) P\<rparr>, verified)"
    if "t' \<le> expiry r" for t'
    using that code by (simp add: verify_on_record [OF stored key])
  have again: "verify_otp w t' (Some P) v' = (w, otp_expired)"
    if "resp = otp_expired" "t \<le> t'" "truthy v'" for t' v'
  proof -
    have "truthy v"
      using run that(1)
      by (auto simp: verify_otp_def otp_expired_def reply_def split: if_splits)
    with run that(1) have "expiry r < t"
      by (auto simp: verify_on_record [OF stored key] responses_distinct responses_distinct [symmetric]
          split: if_splits)
    with that show ?thesis
      by (simp add: verify_on_record [OF stored key])
  qed
  from same retry again show ?thesis by blast
qed

text \<open>
  The theorem on the example state: a wrong code at clock 2000 is a Mismatch and the right
  code still verifies afterwards; the right code at clock 301001 is Expired, and so is a
  repeat at clock 400000.
\<close>

theorem failed_verification_keeps_store_witness:
  "reachable demo_world \<and>
   getprop otp_field (objectPrototype demo_world) (otpStore demo_world) ''+15550100'' =
     Rec \<lparr>otp = ''100000'', expiry = 301000\<rparr> \<and>
   verify_otp demo_world 2000 (Some ''+15550100'') (JStr ''654321'') = (demo_world, otp_mismatch) \<and>
   otp_mismatch \<noteq> verified \<and>
   verify_otp demo_world 301000 (Some ''+15550100'') (JStr ''100000'') =
     (demo_world\<lparr>otpStore := delprop (otpStore demo_world) ''+15550100''\<rparr>, verified) \<and>
   verify_otp demo_world 301001 (Some ''+15550100'') (JStr ''100000'') = (demo_world, otp_expired) \<and>
   otp_expired \<noteq> verified \<and>
   verify_otp demo_world 400000 (Some ''+15550100'') (JStr ''100000'') = (demo_world, otp_expired)"
proof -
  have miss: "verify_otp demo_world 2000 (Some ''+15550100'') (JStr ''654321'') =
      (demo_world, otp_mismatch)"
    by (simp add: demo_verify)
  have late: "verify_otp demo_world 301001 (Some ''+15550100'') (JStr ''100000'') =
      (demo_world, otp_expired)"
    by (simp add: demo_verify)
  note a = failed_verification_keeps_store
    [OF reachable_demo_world demo_world_record miss responses_distinct(1)]
  note b = failed_verification_keeps_store
    [OF reachable_demo_world demo_world_record late responses_distinct(2)]
  from a have "verify_otp demo_world 301000 (Some ''+15550100'') (JStr ''100000'') =
     (demo_world\<lparr>otpStore := delprop (otpStore demo_world) ''+15550100''\<rparr>, verified)"
    by simp
  moreover from b have "verify_otp demo_world 400000 (Some ''+15550100'') (JStr ''100000'') =
     (demo_world, otp_expired)"
    by simp
  ultimately show ?thesis
    using reachable_demo_world demo_world_record miss late responses_distinct(1,2) by blast
qed

text \<open>
  Claim C3. Every code the issuer generates is a string of six decimal digits, but the
  codes do not range over all of 100000..999999: \<^verbatim>\<open>crypto.randomInt(100000, 999999)\<close>
  excludes its upper bound, so the number behind a code lies in 100000..999998 and the
  code \<^verbatim>\<open>999999\<close> is never generated, whatever the random bytes are. The largest
  code, \<^verbatim>\<open>999998\<close>, is generated from the bytes 899998, and the bytes 899999 wrap
  around to \<^verbatim>\<open>100000\<close>.
\<close>

theorem generated_code_excludes_999999:
  "generateOtp x \<noteq> ''999999'' \<and> length (generateOtp x) = 6 \<and>
   set (generateOtp x) \<subseteq> set ''0123456789'' \<and>
   100000 \<le> parseDigits (generateOtp x) \<and> parseDigits (generateOtp x) \<le> 999998 \<and>
   generateOtp 899998 = ''999998'' \<and> generateOtp 899999 = ''100000''"
proof -
  let ?n = "randomInt 100000 999999 x"
  have range: "100000 \<le> ?n \<and> ?n < 999999" by (rule generateOtp_range)
  have parse: "parseDigits (generateOtp x) = ?n"
    by (simp add: generateOtp_def parseDigits_toString)
  have "parseDigits ''999999'' = 999999"
    by (simp add: parseDigits_def digit_val_def)
  with parse range have "generateOtp x \<noteq> ''999999''" by auto
  moreover have "set (generateOtp x) \<subseteq> set ''0123456789''"
    unfolding generateOtp_def by (rule set_toString)
  moreover have "generateOtp 899998 = ''999998''"
    by (simp add: generateOtp_def randomInt_def toString.simps digit_def)
  moreover have "generateOtp 899999 = ''100000''"
    by (simp add: generateOtp_def randomInt_def toString.simps digit_def)
  ultimately show ?thesis
    using range parse generateOtp_length [of x] by simp
qed

text \<open>
  Claim C4, as the code has it. The check is \<^verbatim>\<open>Date.now() > storedOtpData.expiry\<close>, a
  strict comparison: a record whose expiry is issuance time + 5 minutes rejects the correct
  code with Expired at every clock time strictly after issuance + 5 minutes.
\<close>

theorem correct_code_expired_after_ttl:
  assumes "reachable w"
    and "getprop otp_field (objectPrototype w) (otpStore w) P = Rec r"
    and "expiry r = issued + 5 * 60 * 1000"
    and "issued + 5 * 60 * 1000 < t"
  shows "verify_otp w t (Some P) (JStr (otp r)) = (w, otp_expired)"
proof -
  from assms(1) have "store_inv w" by (rule reachable_inv)
  with assms(2) have "otp r \<noteq> []" and "P \<noteq> []"
    using stored_code_nonempty by blast+
  with assms show ?thesis
    by (simp add: verify_on_record [where r = r])
qed

text \<open>
  The theorem on the example state, whose code was issued at clock 1000: the correct code
  at clock 301001 is Expired.
\<close>

theorem correct_code_expired_after_ttl_witness:
  "reachable demo_world \<and>
   getprop otp_field (objectPrototype demo_world) (otpStore demo_world) ''+15550100'' =
     Rec \<lparr>otp = ''100000'', expiry = 301000\<rparr> \<and>
   (301000::nat) = 1000 + 5 * 60 * 1000 \<and> (1000::nat) + 5 * 60 * 1000 < 301001 \<and>
   verify_otp demo_world 301001 (Some ''+15550100'') (JStr ''100000'') = (demo_world, otp_expired)"
proof -
  have "verify_otp demo_world 301001 (Some ''+15550100'') (JStr ''100000'') =
      (demo_world, otp_expired)"
    using correct_code_expired_after_ttl
      [OF reachable_demo_world demo_world_record, of 1000 301001]
    by simp
  then show ?thesis
    using reachable_demo_world demo_world_record by simp
qed

text \<open>
  Counterexample to claim C4 as stated, at the boundary: the example record expires at
  1000 + 5 * 60 * 1000, and at exactly that clock time the correct code is accepted, not
  rejected as Expired.
\<close>

theorem boundary_clock_still_verifies:
  "getprop otp_field (objectPrototype demo_world) (otpStore demo_world) ''+15550100'' =
     Rec \<lparr>otp = ''100000'', expiry = 1000 + 5 * 60 * 1000\<rparr> \<and>
   verify_otp demo_world (1000 + 5 * 60 * 1000) (Some ''+15550100'') (JStr ''100000'') =
     (demo_world\<lparr>otpStore := delprop (otpStore demo_world) ''+15550100''\<rparr>, verified) \<and>
   verified \<noteq> otp_expired"
  by (simp add: demo_world_record demo_verify responses_distinct [symmetric])




text \<open>
  Claim C6, as the code has it. Issuing twice for the same phone number leaves exactly the
  state that the second issuance alone would have left: the store holds one record for the
  number, the new one. Up to its expiry the new code verifies, and the old code, whenever
  it differs from the new one, fails with Mismatch and leaves the record in place.
\<close>

theorem reissue_overwrites:
  assumes "reachable w" and "P \<noteq> []"
    and "w1 = fst (send_otp w t1 x1 sms1 (Some P))"
    and "w2 = fst (send_otp w1 t2 x2 sms2 (Some P))"
  shows "w2 = fst (send_otp w t2 x2 sms2 (Some P)) \<and>
         getprop otp_field (objectPrototype w2) (otpStore w2) P =
           Rec \<lparr>otp = generateOtp x2, expiry = t2 + 5 * 60 * 1000\<rparr> \<and>
         (\<forall>t. t \<le> t2 + 5 * 60 * 1000 \<and> generateOtp x1 \<noteq> generateOtp x2 \<longrightarrow>
            verify_otp w2 t (Some P) (JStr (generateOtp x1)) = (w2, otp_mismatch)) \<and>
         (\<forall>t. t \<le> t2 + 5 * 60 * 1000 \<longrightarrow>
            verify_otp w2 t (Some P) (JStr (generateOtp x2)) =
              (w2\<lparr>otpStore := delprop (otpStore w2) P\<rparr>, verified))"
proof -
  from assms(1) have "store_inv w" by (rule reachable_inv)
  then have "store_inv w1" unfolding assms(3) by (rule store_inv_send)
  have over: "w2 = fst (send_otp w t2 x2 sms2 (Some P))"
    unfolding assms(3,4) using assms(2) by (simp add: send_otp_state setprop_twice)
  have rec: "getprop otp_field (objectPrototype w2) (otpStore w2) P =
      Rec \<lparr>otp = generateOtp x2, expiry = t2 + 300000\<rparr>"
    unfolding assms(4) by (rule issued_record [OF \<open>store_inv w1\<close> assms(2)])
  have "verify_otp w2 t (Some P) (JStr (generateOtp x1)) = (w2, otp_mismatch)"
    if "t \<le> t2 + 5 * 60 * 1000" "generateOtp x1 \<noteq> generateOtp x2" for t
    using that by (simp add: verify_on_record [OF rec assms(2)] generateOtp_nonempty)
  moreover have "verify_otp w2 t (Some P) (JStr (generateOtp x2)) =
      (w2\<lparr>otpStore := delprop (otpStore w2) P\<rparr>, verified)"
    if "t \<le> t2 + 5 * 60 * 1000" for t
    using that by (simp add: verify_on_record [OF rec assms(2)] generateOtp_nonempty)
  ultimately show ?thesis using over rec by simp
qed

text \<open>
  The theorem on a fresh server: codes from the random bytes 0 and 7, issued at clocks
  1000 and 5000, verified at clock 6000.
\<close>

theorem reissue_overwrites_witness:
  "reachable init_world \<and> ''+15550100'' \<noteq> [] \<and>
   generateOtp 0 = ''100000'' \<and> generateOtp 7 = ''100007'' \<and>
   fst (send_otp demo_world 5000 7 (Delivered ''SM2'') (Some ''+15550100'')) =
     fst (send_otp init_world 5000 7 (Delivered ''SM2'') (Some ''+15550100'')) \<and>
   verify_otp (fst (send_otp demo_world 5000 7 (Delivered ''SM2'') (Some ''+15550100'')))
       6000 (Some ''+15550100'') (JStr ''100000'') =
     (fst (send_otp demo_world 5000 7 (Delivered ''SM2'') (Some ''+15550100'')), otp_mismatch) \<and>
   snd (verify_otp (fst (send_otp demo_world 5000 7 (Delivered ''SM2'') (Some ''+15550100'')))
       6000 (Some ''+15550100'') (JStr ''100007'')) = verified"
proof -
  have key: "''+15550100'' \<noteq> []" by simp
  note inst = reissue_overwrites [OF reachable.start key demo_world_def refl,
      of 5000 7 "Delivered ''SM2''"]
  note over = inst [THEN conjunct1]
  note old = inst [THEN conjunct2, THEN conjunct2, THEN conjunct1, rule_format, of 6000]
  note new = inst [THEN conjunct2, THEN conjunct2, THEN conjunct2, rule_format, of 6000]
  have a: "verify_otp
       (fst (send_otp demo_world 5000 7 (Delivered ''SM2'') (Some ''+15550100'')))
       6000 (Some ''+15550100'') (JStr ''100000'') =
     (fst (send_otp demo_world 5000 7 (Delivered ''SM2'') (Some ''+15550100'')), otp_mismatch)"
    using old by (simp add: generateOtp_0 generateOtp_7)
  have b: "snd (verify_otp
       (fst (send_otp demo_world 5000 7 (Delivered ''SM2'') (Some ''+15550100'')))
       6000 (Some ''+15550100'') (JStr ''100007'')) = verified"
    using new by (simp add: generateOtp_7)
  from reachable.start key generateOtp_0 generateOtp_7 over a b show ?thesis
    by blast
qed

text \<open>
  Counterexample to claim C6 as stated: the two codes are drawn independently and can be
  the same string. The random bytes 0 and 899999 both give \<^verbatim>\<open>100000\<close>, and then the
  old code verifies after the re-issuance and does not fail with Mismatch.
\<close>

theorem coinciding_draws_old_code_verifies:
  "generateOtp 0 = ''100000'' \<and> generateOtp 899999 = ''100000'' \<and>
   snd (verify_otp
          (fst (send_otp demo_world 5000 899999 (Delivered ''SM2'') (Some ''+15550100'')))
          6000 (Some ''+15550100'') (JStr ''100000'')) = verified \<and>
   verified \<noteq> otp_mismatch"
proof -
  have "getprop otp_field
      (objectPrototype (fst (send_otp demo_world 5000 899999 (Delivered ''SM2'') (Some ''+15550100''))))
      (otpStore (fst (send_otp demo_world 5000 899999 (Delivered ''SM2'') (Some ''+15550100''))))
      ''+15550100'' = Rec \<lparr>otp = ''100000'', expiry = 305000\<rparr>"
    using issued_record [OF reachable_inv [OF reachable_demo_world],
        of "''+15550100''" 5000 899999 "Delivered ''SM2''"]
    by (simp add: generateOtp_wrap)
  then have "snd (verify_otp
          (fst (send_otp demo_world 5000 899999 (Delivered ''SM2'') (Some ''+15550100'')))
          6000 (Some ''+15550100'') (JStr ''100000'')) = verified"
    by (simp add: verify_on_record)
  then show ?thesis
    by (simp add: generateOtp_0 generateOtp_wrap responses_distinct [symmetric])
qed

text \<open>
  Claim C7 does not hold for phone numbers that name an inherited property of the store
  object. On a fresh server no profile exists, yet an update of \<^verbatim>\<open>constructor\<close> is
  answered with 200, and an update of \<^verbatim>\<open>__proto__\<close> is answered with 200 and writes
  the name to \<^verbatim>\<open>Object.prototype\<close>, after which a GET of the key \<^verbatim>\<open>name\<close>,
  which was answered with 404 before, returns that value.
\<close>

theorem update_of_inherited_key_is_accepted:
  "own (userStore init_world) ''constructor'' = None \<and>
   put_profile init_world ''constructor'' JUndefined (JStr ''hi'') None =
     (init_world, \<lparr>status = 200, success = True,
                   message = Some ''Profile updated successfully.'', user = Some Builtin\<rparr>) \<and>
   own (userStore init_world) ''__proto__'' = None \<and>
   put_profile init_world ''__proto__'' (JStr ''Mallory'') JUndefined None =
     (init_world\<lparr>objectPrototype :=
        \<lparr>name = JStr ''Mallory'', about = JUndefined, profilePicture = JUndefined\<rparr>\<rparr>,
      \<lparr>status = 200, success = True,
       message = Some ''Profile updated successfully.'', user = Some ObjProto\<rparr>) \<and>
   get_profile init_world ''name'' = user_not_found \<and>
   get_profile (fst (put_profile init_world ''__proto__'' (JStr ''Mallory'') JUndefined None)) ''name'' =
     \<lparr>status = 200, success = True, message = None, user = Some (Prim (JStr ''Mallory''))\<rparr>"
  by (simp add: put_profile_def get_profile_def assignFields_def setFields_def getprop_def
      inherited_def object_prototype_methods_def init_world_def empty_store_def user_field_def
      user_not_found_def reply_def Let_def)

text \<open>
  Claim C8 does not hold in every state the server can reach. After
  \<^verbatim>\<open>PUT /api/profile/__proto__\<close> with \<^verbatim>\<open>{"name":"Mallory"}\<close> has written the name
  to \<^verbatim>\<open>Object.prototype\<close>, the profile created with name A for +1 is fetched with
  name A; a JSON update of +1 with \<^verbatim>\<open>{"about":"hi"}\<close> only binds \<^verbatim>\<open>name\<close> to
  the inherited value, and the profile is then fetched with name Mallory and about hi:
  the field absent from the request did not keep its prior value.
\<close>

theorem inherited_name_overwrites_absent_name:
  "reachable demo_polluted \<and>
   get_profile demo_polluted ''+1'' =
     \<lparr>status = 200, success = True, message = None,
      user = Some (Rec \<lparr>name = JStr ''A'', about = JUndefined, profilePicture = JNull\<rparr>)\<rparr> \<and>
   get_profile
       (fst (put_profile_req demo_polluted ''+1'' (JsonBody [''about'' \<mapsto> JStr ''hi'']) None))
       ''+1'' =
     \<lparr>status = 200, success = True, message = None,
      user = Some (Rec \<lparr>name = JStr ''Mallory'', about = JStr ''hi'', profilePicture = JNull\<rparr>)\<rparr>"
proof (intro conjI)
  show "reachable demo_polluted" by (rule reachable_demo_polluted)
qed (simp_all add: demo_polluted_state put_profile_req_def put_profile_def
      get_profile_def bodyField_def assignFields_def setFields_def getprop_def inherited_def
      user_field_def Let_def)

text \<open>
  Claim C9. In a reachable state, against a stored record that has not expired, the
  submitted value is accepted when it is the string equal to the stored code, and every
  other submitted (that is, truthy) value fails with Mismatch and leaves the state
  unchanged. In particular the number whose decimal digits are the stored code fails with
  Mismatch.
\<close>

theorem verification_is_strict_string_equality:
  assumes "reachable w"
    and "getprop otp_field (objectPrototype w) (otpStore w) P = Rec r"
    and "now \<le> expiry r"
  shows "(\<forall>v. truthy v \<and> v \<noteq> JStr (otp r) \<longrightarrow>
            verify_otp w now (Some P) v = (w, otp_mismatch)) \<and>
         verify_otp w now (Some P) (JStr (otp r)) =
           (w\<lparr>otpStore := delprop (otpStore w) P\<rparr>, verified) \<and>
         (\<forall>n. otp r = toString n \<longrightarrow>
            verify_otp w now (Some P) (JNum (int n)) = (w, otp_mismatch))"
proof -
  from assms(1) have inv: "store_inv w" by (rule reachable_inv)
  from stored_code_nonempty [OF inv assms(2)] have code: "otp r \<noteq> []" and key: "P \<noteq> []"
    by simp_all
  have other: "verify_otp w now (Some P) v = (w, otp_mismatch)"
    if "truthy v" "v \<noteq> JStr (otp r)" for v
    using that assms(3) by (auto simp: verify_on_record [OF assms(2) key])
  have same: "verify_otp w now (Some P) (JStr (otp r)) =
      (w\<lparr>otpStore := delprop (otpStore w) P\<rparr>, verified)"
    using code assms(3) by (simp add: verify_on_record [OF assms(2) key])
  have number: "verify_otp w now (Some P) (JNum (int n)) = (w, otp_mismatch)"
    if "otp r = toString n" for n
  proof -
    from stored_code_number [OF inv assms(2) that] have "truthy (JNum (int n))" by simp
    then show ?thesis by (rule other) simp
  qed
  from other same number show ?thesis by blast
qed

text \<open>
  The theorem on the example state: against the stored code \<^verbatim>\<open>"100000"\<close> the number
  100000 and the string \<^verbatim>\<open>"0100000"\<close> are a Mismatch, the string \<^verbatim>\<open>"100000"\<close> is
  accepted.
\<close>

theorem verification_is_strict_string_equality_witness:
  "reachable demo_world \<and>
   getprop otp_field (objectPrototype demo_world) (otpStore demo_world) ''+15550100'' =
     Rec \<lparr>otp = ''100000'', expiry = 301000\<rparr> \<and>
   (2000::nat) \<le> 301000 \<and> toString 100000 = ''100000'' \<and>
   verify_otp demo_world 2000 (Some ''+15550100'') (JNum 100000) = (demo_world, otp_mismatch) \<and>
   verify_otp demo_world 2000 (Some ''+15550100'') (JStr ''100000'') =
     (demo_world\<lparr>otpStore := delprop (otpStore demo_world) ''+15550100''\<rparr>, verified) \<and>
   verify_otp demo_world 2000 (Some ''+15550100'') (JStr ''0100000'') = (demo_world, otp_mismatch)"
proof -
  have digits: "toString 100000 = ''100000''"
    by (simp add: toString.simps digit_def)
  have early: "2000 \<le> expiry \<lparr>otp = ''100000'', expiry = 301000\<rparr>"
    by simp
  note inst = verification_is_strict_string_equality
    [OF reachable_demo_world demo_world_record early]
  have a: "verify_otp demo_world 2000 (Some ''+15550100'') (JNum 100000) =
      (demo_world, otp_mismatch)"
    using inst [THEN conjunct2, THEN conjunct2, rule_format, of 100000] digits by simp
  have b: "verify_otp demo_world 2000 (Some ''+15550100'') (JStr ''100000'') =
     (demo_world\<lparr>otpStore := delprop (otpStore demo_world) ''+15550100''\<rparr>, verified)"
    using inst [THEN conjunct2, THEN conjunct1] by simp
  have c: "verify_otp demo_world 2000 (Some ''+15550100'') (JStr ''0100000'') =
      (demo_world, otp_mismatch)"
    using inst [THEN conjunct1, rule_format, of "JStr ''0100000''"] by simp
  from reachable_demo_world demo_world_record digits a b c show ?thesis by simp
qed

text \<open>
  Claim C10 does not hold in every state the server can reach. In the state of claim C8
  (the name Mallory on \<^verbatim>\<open>Object.prototype\<close>, the profile of +1 with name A), a JSON
  update of +1 with \<^verbatim>\<open>{"name":""}\<close> keeps the name A, and a JSON update without a
  name writes the name Mallory: the empty string is not treated as the absent field is.
\<close>

theorem empty_name_differs_from_absent_name:
  "getprop user_field (objectPrototype demo_polluted) (userStore demo_polluted) ''+1'' =
     Rec \<lparr>name = JStr ''A'', about = JUndefined, profilePicture = JNull\<rparr> \<and>
   get_profile
       (fst (put_profile_req demo_polluted ''+1'' (JsonBody [''name'' \<mapsto> JStr '''']) None))
       ''+1'' =
     \<lparr>status = 200, success = True, message = None,
      user = Some (Rec \<lparr>name = JStr ''A'', about = JUndefined, profilePicture = JNull\<rparr>)\<rparr> \<and>
   get_profile (fst (put_profile_req demo_polluted ''+1'' (JsonBody Map.empty) None)) ''+1'' =
     \<lparr>status = 200, success = True, message = None,
      user = Some (Rec \<lparr>name = JStr ''Mallory'', about = JUndefined, profilePicture = JNull\<rparr>)\<rparr>"
  by (simp add: demo_polluted_state put_profile_req_def put_profile_def
      get_profile_def bodyField_def assignFields_def setFields_def getprop_def inherited_def
      user_field_def Let_def)

end
